theory Spec2Isabelle
  imports Main "HOL-Library.Sublist"
begin

section \<open>Go values used across the packages\<close>

text \<open>
  A Go \<open>error\<close> that is not nil. \<open>http.ErrServerClosed\<close> and
  \<open>context.DeadlineExceeded\<close> are the two sentinel values the program can meet;
  every other error is known by its message only. A possibly nil \<open>error\<close> is an
  \<open>error option\<close>, \<open>None\<close> being nil.
\<close>

datatype error = ErrServerClosed | DeadlineExceeded | Errorf string

fun Error :: "error \<Rightarrow> string" where
  "Error ErrServerClosed = ''http: Server closed''"
| "Error DeadlineExceeded = ''context deadline exceeded''"
| "Error (Errorf msg) = msg"

text \<open>A run-time panic of the Go runtime.\<close>

datatype panic = NilPointerDereference

text \<open>The verb \<open>%d\<close> of \<open>fmt.Sprintf\<close> on an \<open>int\<close>: decimal digits, a minus sign first
  when the number is negative.\<close>

definition digit :: "nat \<Rightarrow> char" where
  "digit n = ''0123456789'' ! (n mod 10)"

fun decimal :: "nat \<Rightarrow> string" where
  "decimal n = (if n < 10 then [digit n] else decimal (n div 10) @ [digit n])"

declare decimal.simps [simp del]

definition fmt_d :: "int \<Rightarrow> string" where
  "fmt_d i = (if i < 0 then ''-'' @ decimal (nat (- i)) else decimal (nat i))"

section \<open>Package settings: the configuration records\<close>

text \<open>
  Modelled from the spec: package \<open>settings\<close> is not among the sources. The spec gives
  the shape of what the connectors consume:
  \<open>{ host, port, user, password, databaseName, maxOpenConnections, maxIdleConnections }\<close>
  for the relational store and \<open>{ level, filename, maxSizeMB, maxBackups, maxAgeDays }\<close>
  for the log. The field names are the ones \<open>mysql.Init\<close> and \<open>logger.Init\<close> read; the
  port is printed with \<open>%d\<close> and the pool sizes go to functions that take an \<open>int\<close>.
\<close>

record MySQLConfig =
  Host :: string
  User :: string
  Password :: string
  DbName :: string
  Port :: int
  MaxOpenConns :: int
  MaxIdleConns :: int

record LogConfig =
  Level :: string
  Filename :: string
  MaxSize :: int
  MaxAge :: int
  MaxBackups :: int

text \<open>\<open>settings.Conf\<close>, of which \<open>main\<close> reads \<open>Conf.LogConfig\<close> and \<open>Conf.MySQLConfig\<close>.\<close>

record Conf =
  Conf_LogConfig :: LogConfig
  Conf_MySQLConfig :: MySQLConfig

section \<open>The values package logger builds\<close>

text \<open>
  \<open>lumberjack.Logger\<close>, the rotating file writer, with the four fields \<open>getLogWriter\<close>
  fills; \<open>zapcore.AddSync\<close> wraps it as a \<open>WriteSyncer\<close>.
\<close>

record lumberjack_Logger =
  lj_Filename :: string
  lj_MaxSize :: int
  lj_MaxBackups :: int
  lj_MaxAge :: int

datatype WriteSyncer = AddSync lumberjack_Logger

text \<open>
  \<open>zapcore.EncoderConfig\<close>: the five fields \<open>getEncoder\<close> assigns. The encoders are
  functions of zap; only which one is chosen matters here.
\<close>

datatype TimeEncoder = EpochTimeEncoder | ISO8601TimeEncoder
datatype LevelEncoder = LowercaseLevelEncoder | CapitalLevelEncoder
datatype DurationEncoder = SecondsDurationEncoder | NanosDurationEncoder | StringDurationEncoder
datatype CallerEncoder = ShortCallerEncoder | FullCallerEncoder

record EncoderConfig =
  TimeKey :: string
  EncodeTime :: TimeEncoder
  EncodeLevel :: LevelEncoder
  EncodeDuration :: DurationEncoder
  EncodeCaller :: CallerEncoder

datatype Encoder = NewJSONEncoder EncoderConfig | NewConsoleEncoder EncoderConfig

datatype zapcore_Level =
  DebugLevel | InfoLevel | WarnLevel | ErrorLevel | DPanicLevel | PanicLevel | FatalLevel

text \<open>\<open>zapcore.NewCore(encoder, writeSyncer, level)\<close> and \<open>zap.New(core, zap.AddCaller())\<close>.\<close>

datatype Core = NewCore Encoder WriteSyncer zapcore_Level

datatype zap_Option = AddCaller

datatype zap_Logger = zap_New Core "zap_Option list"

section \<open>Calls to the outside, and the state of the process\<close>

text \<open>The signals of the operating system that the model tells apart.\<close>

datatype signal = SIGHUP | SIGINT | SIGQUIT | SIGKILL | SIGUSR1 | SIGTERM

text \<open>The handle \<open>sqlx.Connect\<close> returns: a pool opened by a driver on a data source.\<close>

datatype sqlx_DB = SqlxDB string string

text \<open>The calls the program makes to its collaborators, in the order it makes them.\<close>

datatype event =
    SettingsInit
  | FmtPrintf string
  | ZapDebug string
  | ZapInfo string
  | ZapError string error
  | ZapFatal string error
  | ZapSync
  | SqlxConnect string string
  | SetMaxOpenConns int
  | SetMaxIdleConns int
  | DBClose sqlx_DB
  | RedisInit
  | RedisClose
  | RoutesSetup
  | GoListenAndServe string
  | LogFatalf string
  | SignalNotify "signal list"
  | Receive signal
  | WithTimeout int
  | Shutdown int "error option"
  | Cancel
  | OsExit int

text \<open>The calls \<open>main\<close> defers.\<close>

datatype deferred = DeferSync | DeferMysqlClose | DeferRedisClose | DeferCancel

text \<open>
  The state of the process: the calls made so far, the stack of deferred calls of \<open>main\<close>
  (the latest first), the package variable \<open>db\<close> of package mysql (\<open>None\<close> is nil) and
  the global logger of zap (\<open>None\<close> is the no-op logger zap starts with).
\<close>

record proc =
  trace :: "event list"
  defers :: "deferred list"
  db :: "sqlx_DB option"
  globalL :: "zap_Logger option"

definition start :: proc where
  "start = \<lparr>trace = [], defers = [], db = None, globalL = None\<rparr>"

definition emit :: "event \<Rightarrow> proc \<Rightarrow> proc" where
  "emit e p = p\<lparr>trace := trace p @ [e]\<rparr>"

definition go_defer :: "deferred \<Rightarrow> proc \<Rightarrow> proc" where
  "go_defer d p = p\<lparr>defers := d # defers p\<rparr>"

section \<open>Package logger: Init\<close>

definition getLogWriter :: "string \<Rightarrow> int \<Rightarrow> int \<Rightarrow> int \<Rightarrow> WriteSyncer" where
  "getLogWriter filename maxSize maxBackup maxAge =
     AddSync \<lparr>lj_Filename = filename, lj_MaxSize = maxSize,
              lj_MaxBackups = maxBackup, lj_MaxAge = maxAge\<rparr>"

text \<open>\<open>getEncoder\<close>, from the configuration \<open>zap.NewProductionEncoderConfig()\<close> returns.\<close>

definition getEncoder :: "EncoderConfig \<Rightarrow> Encoder" where
  "getEncoder encoderConfig =
     NewJSONEncoder (encoderConfig\<lparr>EncodeTime := ISO8601TimeEncoder, TimeKey := ''time'',
       EncodeLevel := CapitalLevelEncoder, EncodeDuration := SecondsDurationEncoder,
       EncodeCaller := ShortCallerEncoder\<rparr>)"

definition ReplaceGlobals :: "zap_Logger \<Rightarrow> proc \<Rightarrow> proc" where
  "ReplaceGlobals lg p = p\<lparr>globalL := Some lg\<rparr>"

text \<open>
  \<open>logger.Init\<close>. \<open>UnmarshalText\<close> stands for \<open>(*zapcore.Level).UnmarshalText\<close> on a
  fresh level: the level parsed, or the error. \<open>production\<close> is what
  \<open>zap.NewProductionEncoderConfig()\<close> returns.
\<close>

definition logger_Init ::
  "(string \<Rightarrow> error + zapcore_Level) \<Rightarrow> EncoderConfig \<Rightarrow> LogConfig \<Rightarrow> proc
     \<Rightarrow> error option \<times> proc" where
  "logger_Init UnmarshalText production cfg p =
     (let writeSyncer = getLogWriter (Filename cfg) (MaxSize cfg) (MaxBackups cfg) (MaxAge cfg);
          encoder = getEncoder production
      in case UnmarshalText (Level cfg) of
           Inl err \<Rightarrow> (Some err, p)
         | Inr level \<Rightarrow>
             (let core = NewCore encoder writeSyncer level;
                  lg = zap_New core [AddCaller];
                  p = ReplaceGlobals lg p
              in (None, p)))"

section \<open>Package mysql\<close>

text \<open>The data source name \<open>Init\<close> formats:
  \<^verbatim>\<open>fmt.Sprintf("%s:%s@tcp(%s:%d)/%s?charset=utf8mb4&parseTime=true", ...)\<close>.\<close>

definition dsn :: "MySQLConfig \<Rightarrow> string" where
  "dsn cfg = User cfg @ '':'' @ Password cfg @ ''@tcp('' @ Host cfg @ '':'' @ fmt_d (Port cfg)
     @ '')/'' @ DbName cfg @ ''?charset=utf8mb4&parseTime=true''"

text \<open>
  \<open>mysql.Init\<close>. \<open>Connect\<close> stands for \<open>sqlx.Connect\<close>: given the driver name and the
  data source name it answers nil or an error; with the error it returns a nil handle,
  which the assignment \<open>db, err = sqlx.Connect(...)\<close> stores in the package variable.
\<close>

definition mysql_Init ::
  "(string \<Rightarrow> string \<Rightarrow> error option) \<Rightarrow> MySQLConfig \<Rightarrow> proc \<Rightarrow> error option \<times> proc" where
  "mysql_Init Connect cfg p =
     (let p = emit (SqlxConnect ''mysql'' (dsn cfg)) p in
      case Connect ''mysql'' (dsn cfg) of
        Some err \<Rightarrow>
          (let p = p\<lparr>db := None\<rparr>;
               p = emit (ZapError ''connect to DB failed'' err) p
           in (Some err, p))
      | None \<Rightarrow>
          (let p = p\<lparr>db := Some (SqlxDB ''mysql'' (dsn cfg))\<rparr>;
               p = emit (SetMaxOpenConns (MaxOpenConns cfg)) p;
               p = emit (SetMaxIdleConns (MaxIdleConns cfg)) p
           in (None, p)))"

text \<open>
  \<open>mysql.Close\<close> is \<open>_ = db.Close()\<close>. \<open>Close\<close> is a method of the \<open>*sql.DB\<close> embedded
  in \<open>sqlx.DB\<close>, so the call reads a field through \<open>db\<close>: with a nil \<open>db\<close> the runtime
  panics. The error \<open>Close\<close> returns is dropped.
\<close>

definition mysql_Close :: "proc \<Rightarrow> panic + proc" where
  "mysql_Close p =
     (case db p of
        None \<Rightarrow> Inl NilPointerDereference
      | Some h \<Rightarrow> Inr (emit (DBClose h) p))"

section \<open>The supervisor: main\<close>

text \<open>
  What the world around \<open>main\<close> answers: the result of \<open>settings.Init()\<close> and the
  configuration it loads, the two functions of zap that \<open>logger.Init\<close> calls,
  \<open>sqlx.Connect\<close>, the result of \<open>redis.Init()\<close>, the port \<open>viper.GetInt("app.port")\<close>
  reads, what arrives while \<open>main\<close> waits on its channel, and the result of
  \<open>srv.Shutdown(ctx)\<close>. Packages settings, redis and routes are not among the sources:
  their calls are events, their results are read here.
\<close>

datatype arrival = Signal signal | ListenAndServeReturns "error option"

record world =
  settings_Init :: "error option"
  settings_Conf :: Conf
  zap_UnmarshalText :: "string \<Rightarrow> error + zapcore_Level"
  zap_NewProductionEncoderConfig :: EncoderConfig
  sqlx_Connect :: "string \<Rightarrow> string \<Rightarrow> error option"
  redis_Init :: "error option"
  app_port :: int
  arrivals :: "arrival list"
  srv_Shutdown :: "error option"

text \<open>How a run of the process ends: \<open>main\<close> returns, \<open>os.Exit\<close> is called with a status,
  a panic reaches the top of \<open>main\<close>, a signal nobody handles ends the process, or \<open>main\<close>
  stays blocked on its channel.\<close>

datatype outcome = Returned | Exited int | Panicked panic | KilledBy signal | Blocked

text \<open>
  A deferred call, when it runs. \<open>zap.L().Sync()\<close>, \<open>redis.Close()\<close> and \<open>cancel()\<close> are
  calls to the outside; \<open>mysql.Close()\<close> is the function above.
\<close>

fun run_deferred :: "deferred \<Rightarrow> proc \<Rightarrow> panic + proc" where
  "run_deferred DeferSync p = Inr (emit ZapSync p)"
| "run_deferred DeferMysqlClose p = mysql_Close p"
| "run_deferred DeferRedisClose p = Inr (emit RedisClose p)"
| "run_deferred DeferCancel p = Inr (emit Cancel p)"

text \<open>
  A \<open>return\<close> of \<open>main\<close>: the deferred calls run, the latest first. A deferred call that
  panics does not stop the ones below it; the panic goes on once they have run.
\<close>

fun unwind :: "deferred list \<Rightarrow> panic option \<Rightarrow> proc \<Rightarrow> panic option \<times> proc" where
  "unwind [] pn p = (pn, p)"
| "unwind (d # ds) pn p =
     (case run_deferred d p of
        Inl pn' \<Rightarrow> unwind ds (Some pn') p
      | Inr p' \<Rightarrow> unwind ds pn p')"

definition return_main :: "proc \<Rightarrow> outcome \<times> proc" where
  "return_main p =
     (case unwind (defers p) None (p\<lparr>defers := []\<rparr>) of
        (None, p') \<Rightarrow> (Returned, p')
      | (Some pn, p') \<Rightarrow> (Panicked pn, p'))"

text \<open>
  \<open>os.Exit(code)\<close> ends the process at once: deferred calls do not run. Both
  \<open>log.Fatalf\<close> and \<open>(*zap.Logger).Fatal\<close> write their entry and then call
  \<open>os.Exit(1)\<close>.
\<close>

definition os_Exit :: "int \<Rightarrow> proc \<Rightarrow> outcome \<times> proc" where
  "os_Exit code p = (Exited code, emit (OsExit code) p)"

text \<open>The line \<open>main\<close> prints when an initialisation fails:
  \<^verbatim>\<open>fmt.Printf("init setting failed error:%v\n", err)\<close>.\<close>

definition init_failed :: "error \<Rightarrow> event" where
  "init_failed err = FmtPrintf (''init setting failed error:'' @ Error err @ ''\<newline>'')"

text \<open>
  The body of the goroutine, once \<open>srv.ListenAndServe()\<close> has returned \<open>err\<close>:
  \<^verbatim>\<open>if err != nil && err != http.ErrServerClosed { log.Fatalf("listen: %s\n", err) }\<close>.
  The result is the calls it makes; none when it just ends.
\<close>

definition serve_task :: "error option \<Rightarrow> event list" where
  "serve_task r =
     (case r of
        None \<Rightarrow> []
      | Some err \<Rightarrow>
          if err \<noteq> ErrServerClosed
          then [LogFatalf (''listen: '' @ Error err @ ''\<newline>''), OsExit 1]
          else [])"

text \<open>
  Of the signals not passed to \<open>signal.Notify\<close>, Go ends the process on \<open>SIGHUP\<close>,
  \<open>SIGINT\<close>, \<open>SIGTERM\<close> and \<open>SIGQUIT\<close>; \<open>SIGKILL\<close> cannot be caught (the comment in
  \<open>main\<close> says so); \<open>SIGUSR1\<close> is caught and dropped.
\<close>

definition ends_process :: "signal \<Rightarrow> bool" where
  "ends_process s = (s \<noteq> SIGUSR1)"

text \<open>
  \<open><-quit\<close>: \<open>main\<close> is parked until the channel holds a signal, and
  \<open>signal.Notify(quit, sigs...)\<close> relays to the channel the signals in \<open>sigs\<close> only.
  Meanwhile the goroutine may see \<open>ListenAndServe\<close> return. The arrivals are taken one
  after the other: the first that wakes \<open>main\<close> or ends the process decides.
\<close>

datatype wakeup = Got signal | ListenFatal "event list" | Ended signal | Never

fun wait_quit :: "signal list \<Rightarrow> arrival list \<Rightarrow> wakeup" where
  "wait_quit sigs [] = Never"
| "wait_quit sigs (Signal s # as) =
     (if s \<in> set sigs then Got s
      else if ends_process s then Ended s
      else wait_quit sigs as)"
| "wait_quit sigs (ListenAndServeReturns r # as) =
     (case serve_task r of
        [] \<Rightarrow> wait_quit sigs as
      | e # es \<Rightarrow> ListenFatal (e # es))"

text \<open>\<open>time.Second\<close>, a \<open>time.Duration\<close>: a count of nanoseconds.\<close>

definition Second :: int where
  "Second = 1000000000"

text \<open>
  \<open>main\<close>. The call \<open>logger.Init(settings.Conf.LogConfig)\<close> is read as the \<open>Init\<close> of
  package logger. After a wake-up by a signal the remaining arrivals play no part:
  once \<open>Shutdown\<close> is called \<open>ListenAndServe\<close> returns \<open>ErrServerClosed\<close>, which the
  goroutine lets pass.
\<close>

definition main :: "world \<Rightarrow> outcome \<times> proc" where
  "main w =
     (let p = emit SettingsInit start in
      case settings_Init w of
        Some err \<Rightarrow> return_main (emit (init_failed err) p)
      | None \<Rightarrow>
     (case logger_Init (zap_UnmarshalText w) (zap_NewProductionEncoderConfig w)
             (Conf_LogConfig (settings_Conf w)) p of
        (Some err, p) \<Rightarrow> return_main (emit (init_failed err) p)
      | (None, p) \<Rightarrow>
     (let p = go_defer DeferSync p;
          p = emit (ZapDebug ''logger init success...'') p
      in case mysql_Init (sqlx_Connect w) (Conf_MySQLConfig (settings_Conf w)) p of
        (Some err, p) \<Rightarrow> return_main (emit (init_failed err) p)
      | (None, p) \<Rightarrow>
     (let p = go_defer DeferMysqlClose p;
          p = emit RedisInit p
      in case redis_Init w of
        Some err \<Rightarrow> return_main (emit (init_failed err) p)
      | None \<Rightarrow>
     (let p = go_defer DeferRedisClose p;
          p = emit RoutesSetup p;
          p = emit (GoListenAndServe ('':'' @ fmt_d (app_port w))) p;
          p = emit (SignalNotify [SIGINT, SIGTERM]) p
      in case wait_quit [SIGINT, SIGTERM] (arrivals w) of
        Never \<Rightarrow> (Blocked, p)
      | Ended s \<Rightarrow> (KilledBy s, p)
      | ListenFatal es \<Rightarrow> (Exited 1, p\<lparr>trace := trace p @ es\<rparr>)
      | Got s \<Rightarrow>
     (let p = emit (Receive s) p;
          p = emit (ZapInfo ''Shutdown Server ...'') p;
          p = emit (WithTimeout (5 * Second)) p;
          p = go_defer DeferCancel p;
          p = emit (Shutdown (5 * Second) (srv_Shutdown w)) p
      in case srv_Shutdown w of
        Some err \<Rightarrow> os_Exit 1 (emit (ZapFatal ''Server Shutdown'' err) p)
      | None \<Rightarrow> return_main p))))))"

text \<open>
  The first of the four initialisations that fails, in the order \<open>main\<close> runs them:
  configuration, logger, database, cache; \<open>None\<close> when all four succeed.
\<close>

definition first_failure :: "world \<Rightarrow> error option" where
  "first_failure w =
     (case settings_Init w of
        Some err \<Rightarrow> Some err
      | None \<Rightarrow>
          (case zap_UnmarshalText w (Level (Conf_LogConfig (settings_Conf w))) of
             Inl err \<Rightarrow> Some err
           | Inr level \<Rightarrow>
               (case sqlx_Connect w ''mysql'' (dsn (Conf_MySQLConfig (settings_Conf w))) of
                  Some err \<Rightarrow> Some err
                | None \<Rightarrow> redis_Init w)))"

text \<open>
  The calls \<open>main\<close> makes, when the four initialisations succeed, up to the point where it
  waits on its channel: lines 26 to 74.
\<close>

definition startup_calls :: "world \<Rightarrow> event list" where
  "startup_calls w =
     [SettingsInit,
      ZapDebug ''logger init success...'',
      SqlxConnect ''mysql'' (dsn (Conf_MySQLConfig (settings_Conf w))),
      SetMaxOpenConns (MaxOpenConns (Conf_MySQLConfig (settings_Conf w))),
      SetMaxIdleConns (MaxIdleConns (Conf_MySQLConfig (settings_Conf w))),
      RedisInit,
      RoutesSetup,
      GoListenAndServe ('':'' @ fmt_d (app_port w)),
      SignalNotify [SIGINT, SIGTERM]]"

text \<open>Whether an event is the teardown of a store connection.\<close>

fun teardown :: "event \<Rightarrow> bool" where
  "teardown (DBClose h) = True"
| "teardown RedisClose = True"
| "teardown e = False"

subsection \<open>A sample world\<close>

text \<open>
  A stand-in for \<open>(*zapcore.Level).UnmarshalText\<close> in the sample world: it accepts the
  level names of zap, in lower or in upper case, and the empty text. The functions above
  take the parser as a parameter and do not depend on this one.
\<close>

definition sample_UnmarshalText :: "string \<Rightarrow> error + zapcore_Level" where
  "sample_UnmarshalText text =
     (case map_of
        [(''debug'', DebugLevel), (''DEBUG'', DebugLevel), (''info'', InfoLevel),
         (''INFO'', InfoLevel), ([], InfoLevel), (''warn'', WarnLevel), (''WARN'', WarnLevel),
         (''error'', ErrorLevel), (''ERROR'', ErrorLevel), (''dpanic'', DPanicLevel),
         (''DPANIC'', DPanicLevel), (''panic'', PanicLevel), (''PANIC'', PanicLevel),
         (''fatal'', FatalLevel), (''FATAL'', FatalLevel)] text of
        Some level \<Rightarrow> Inr level
      | None \<Rightarrow> Inl (Errorf (''unrecognized level: '' @ text)))"

definition sample_MySQLConfig :: MySQLConfig where
  "sample_MySQLConfig =
     \<lparr>Host = ''127.0.0.1'', User = ''root'', Password = ''secret'', DbName = ''app'',
      Port = 3306, MaxOpenConns = 200, MaxIdleConns = 50\<rparr>"

definition sample_LogConfig :: LogConfig where
  "sample_LogConfig =
     \<lparr>Level = ''debug'', Filename = ''web_app.log'', MaxSize = 200, MaxAge = 30,
      MaxBackups = 7\<rparr>"

definition sample_EncoderConfig :: EncoderConfig where
  "sample_EncoderConfig =
     \<lparr>TimeKey = ''ts'', EncodeTime = EpochTimeEncoder, EncodeLevel = LowercaseLevelEncoder,
      EncodeDuration = SecondsDurationEncoder, EncodeCaller = ShortCallerEncoder\<rparr>"

text \<open>Every initialisation succeeds, an interrupt arrives, and \<open>Shutdown\<close> returns nil.\<close>

definition sample_world :: world where
  "sample_world =
     \<lparr>settings_Init = None,
      settings_Conf = \<lparr>Conf_LogConfig = sample_LogConfig, Conf_MySQLConfig = sample_MySQLConfig\<rparr>,
      zap_UnmarshalText = sample_UnmarshalText,
      zap_NewProductionEncoderConfig = sample_EncoderConfig,
      sqlx_Connect = (\<lambda>driverName dataSourceName. None),
      redis_Init = None,
      app_port = 8081,
      arrivals = [Signal SIGUSR1, Signal SIGINT],
      srv_Shutdown = None\<rparr>"

section \<open>Package logger: GinRecovery\<close>

text \<open>
  The values the middleware tells apart in what \<open>recover()\<close> returns when it is not
  nil. A panic value is an \<open>any\<close>: a \<open>*net.OpError\<close> (a pointer, so possibly nil inside
  the interface), another error, or a value that is no error. \<open>net.OpError.Err\<close> is an
  \<open>error\<close>: nil, a \<open>*os.SyscallError\<close> (again a pointer), or another error.
  \<open>os.SyscallError\<close> has the fields \<open>Syscall\<close> and \<open>Err\<close>. The field \<open>Err\<close> is any
  Go \<open>error\<close>: the nil interface (\<open>None\<close>), or a value whose method \<open>Error\<close>, when
  called, returns a text or panics itself (a nil pointer of an error type whose method
  reads through the receiver, an \<open>*os.PathError\<close> without \<open>Err\<close>, and so on). The value
  is kept as what that call gives.
\<close>

datatype SyscallError = SyscallError string "(panic + string) option"

datatype OpError_Err = Err_nil | Err_SyscallError "SyscallError option" | Err_other error

datatype OpError = OpError OpError_Err

datatype recovered = OfOpError "OpError option" | OfError error | OfValue string

text \<open>
  \<open>(*os.SyscallError).Error\<close> is \<open>e.Syscall + ": " + e.Err.Error()\<close>. It reads through the
  receiver, so it panics on a nil receiver; it calls a method on the field \<open>Err\<close>, so it
  panics when the field is the nil interface; and when the method called panics, so does
  it.
\<close>

definition SyscallError_Error :: "SyscallError option \<Rightarrow> panic + string" where
  "SyscallError_Error se =
     (case se of
        None \<Rightarrow> Inl NilPointerDereference
      | Some (SyscallError syscall None) \<Rightarrow> Inl NilPointerDereference
      | Some (SyscallError syscall (Some (Inl pn))) \<Rightarrow> Inl pn
      | Some (SyscallError syscall (Some (Inr msg))) \<Rightarrow> Inr (syscall @ '': '' @ msg))"

text \<open>\<open>strings.Contains(s, substr)\<close>.\<close>

definition Contains :: "string \<Rightarrow> string \<Rightarrow> bool" where
  "Contains s substr = sublist substr s"

text \<open>
  The check for a broken connection, lines 144 to 151. \<open>ToLower\<close> stands for
  \<open>strings.ToLower\<close>. \<open>ne.Err\<close> reads through \<open>ne\<close>, and \<open>se.Error()\<close> is the method above.
\<close>

definition brokenPipe :: "(string \<Rightarrow> string) \<Rightarrow> recovered \<Rightarrow> panic + bool" where
  "brokenPipe ToLower err =
     (case err of
        OfOpError ne \<Rightarrow>
          (case ne of
             None \<Rightarrow> Inl NilPointerDereference
           | Some (OpError ne_Err) \<Rightarrow>
               (case ne_Err of
                  Err_SyscallError se \<Rightarrow>
                    (case SyscallError_Error se of
                       Inl pn \<Rightarrow> Inl pn
                     | Inr msg \<Rightarrow>
                         Inr (Contains (ToLower msg) ''broken pipe''
                              \<or> Contains (ToLower msg) ''connection reset by peer''))
                | _ \<Rightarrow> Inr False))
      | _ \<Rightarrow> Inr False)"

text \<open>The calls the middleware makes on the context and on the logger.\<close>

datatype field = zap_Any string recovered | zap_String string string

datatype gin_event =
    c_Next
  | zap_Error string "field list"
  | c_Error recovered
  | c_Abort
  | c_AbortWithStatus nat

text \<open>What the request gives the middleware: \<open>c.Request.URL.Path\<close>, the text
  \<open>httputil.DumpRequest(c.Request, false)\<close> returns and the text of \<open>debug.Stack()\<close>.\<close>

record gin_Context =
  Request_URL_Path :: string
  DumpRequest :: string
  debug_Stack :: string

text \<open>
  How \<open>c.Next()\<close>, the rest of the handler chain, ends: it returns, it panics with a
  value, or it calls \<open>panic(nil)\<close> under a Go older than 1.21. From Go 1.21 on
  \<open>panic(nil)\<close> is a panic with a \<open>*runtime.PanicNilError\<close>, one of the other errors.
\<close>

datatype next_result = Completes | Panics recovered | PanicsNil

text \<open>\<open>recover()\<close> in the deferred function: nil when the chain returned, and nil for the
  old \<open>panic(nil)\<close>, else the panic value.\<close>

fun go_recover :: "next_result \<Rightarrow> recovered option" where
  "go_recover Completes = None"
| "go_recover (Panics err) = Some err"
| "go_recover PanicsNil = None"

definition StatusInternalServerError :: nat where
  "StatusInternalServerError = 500"

text \<open>
  The handler \<open>GinRecovery(stack)\<close> returns, on one request: the calls it makes, and the
  panic that leaves it, if any. The deferred function runs when \<open>c.Next()\<close> has returned
  or panicked; a panic raised inside the deferred function is not recovered by it.
\<close>

definition GinRecovery ::
  "bool \<Rightarrow> (string \<Rightarrow> string) \<Rightarrow> gin_Context \<Rightarrow> next_result
     \<Rightarrow> gin_event list \<times> panic option" where
  "GinRecovery stack ToLower c r =
     (case go_recover r of
        None \<Rightarrow> ([c_Next], None)
      | Some err \<Rightarrow>
          (case brokenPipe ToLower err of
             Inl pn \<Rightarrow> ([c_Next], Some pn)
           | Inr bp \<Rightarrow>
               if bp then
                 ([c_Next,
                   zap_Error (Request_URL_Path c)
                     [zap_Any ''error'' err, zap_String ''request'' (DumpRequest c)],
                   c_Error err,
                   c_Abort], None)
               else if stack then
                 ([c_Next,
                   zap_Error ''[Recovery from panic]''
                     [zap_Any ''error'' err, zap_String ''request'' (DumpRequest c),
                      zap_String ''stack'' (debug_Stack c)],
                   c_AbortWithStatus StatusInternalServerError], None)
               else
                 ([c_Next,
                   zap_Error ''[Recovery from panic]''
                     [zap_Any ''error'' err, zap_String ''request'' (DumpRequest c)],
                   c_AbortWithStatus StatusInternalServerError], None)))"

text \<open>\<open>strings.ToLower\<close> on ASCII text: the letters \<open>A\<close> to \<open>Z\<close> become \<open>a\<close> to \<open>z\<close>.\<close>

definition ascii_ToLower :: "string \<Rightarrow> string" where
  "ascii_ToLower s =
     map (\<lambda>c. case map_of (zip ''ABCDEFGHIJKLMNOPQRSTUVWXYZ'' ''abcdefghijklmnopqrstuvwxyz'') c of
                 None \<Rightarrow> c | Some l \<Rightarrow> l) s"

text \<open>A sample request.\<close>

definition sample_Context :: gin_Context where
  "sample_Context =
     \<lparr>Request_URL_Path = ''/ping'', DumpRequest = ''GET /ping HTTP/1.1'',
      debug_Stack = ''goroutine 1 [running]''\<rparr>"

text \<open>The panic value of a write on a closed connection:
  \<^verbatim>\<open>&net.OpError{Op: "write", Err: &os.SyscallError{Syscall: "write", Err: syscall.EPIPE}}\<close>.\<close>

definition sample_EPIPE :: recovered where
  "sample_EPIPE =
     OfOpError (Some (OpError (Err_SyscallError
       (Some (SyscallError ''write'' (Some (Inr ''broken pipe'')))))))"

section \<open>Facts used by several proofs\<close>

lemmas main_unfold = main_def logger_Init_def mysql_Init_def mysql_Close_def return_main_def
  os_Exit_def emit_def go_defer_def ReplaceGlobals_def start_def init_failed_def

lemma sublist_mid: "ys = a @ x @ b \<Longrightarrow> sublist x ys"
  by (auto simp: sublist_def)

lemma sample_dsn:
  "dsn sample_MySQLConfig = ''root:secret@tcp(127.0.0.1:3306)/app?charset=utf8mb4&parseTime=true''"
  by (simp add: dsn_def sample_MySQLConfig_def fmt_d_def decimal.simps digit_def)

section \<open>Package mysql: Init and Close\<close>

text \<open>
  Claim C7. \<open>mysql.Init\<close> builds its connection target from exactly the configured host,
  port, user, password and database name: two configurations that agree on these five
  fields give the same data source name, and each of the five occurs in it. When
  \<open>sqlx.Connect\<close> succeeds, \<open>Init\<close> stores the handle, calls \<open>SetMaxOpenConns\<close> and
  \<open>SetMaxIdleConns\<close> with the configured values and returns nil. When it fails, \<open>Init\<close>
  logs and returns the error and makes neither call.
\<close>

theorem mysql_Init_spec:
  "(\<forall>cfg'. User cfg' = User cfg \<and> Password cfg' = Password cfg \<and> Host cfg' = Host cfg
        \<and> Port cfg' = Port cfg \<and> DbName cfg' = DbName cfg \<longrightarrow> dsn cfg' = dsn cfg)
   \<and> sublist (User cfg) (dsn cfg) \<and> sublist (Password cfg) (dsn cfg)
   \<and> sublist (Host cfg) (dsn cfg) \<and> sublist (fmt_d (Port cfg)) (dsn cfg)
   \<and> sublist (DbName cfg) (dsn cfg)
   \<and> (Connect ''mysql'' (dsn cfg) = None \<longrightarrow>
        mysql_Init Connect cfg p =
          (None, p\<lparr>trace := trace p @ [SqlxConnect ''mysql'' (dsn cfg),
                     SetMaxOpenConns (MaxOpenConns cfg), SetMaxIdleConns (MaxIdleConns cfg)],
                   db := Some (SqlxDB ''mysql'' (dsn cfg))\<rparr>))
   \<and> (\<forall>err. Connect ''mysql'' (dsn cfg) = Some err \<longrightarrow>
        mysql_Init Connect cfg p =
          (Some err, p\<lparr>trace := trace p @ [SqlxConnect ''mysql'' (dsn cfg),
                     ZapError ''connect to DB failed'' err], db := None\<rparr>))"
proof -
  have frame: "\<forall>cfg'. User cfg' = User cfg \<and> Password cfg' = Password cfg \<and> Host cfg' = Host cfg
        \<and> Port cfg' = Port cfg \<and> DbName cfg' = DbName cfg \<longrightarrow> dsn cfg' = dsn cfg"
    by (simp add: dsn_def)
  have u: "sublist (User cfg) (dsn cfg)"
    unfolding dsn_def by (rule sublist_mid [where a = "[]"]) simp
  have pw: "sublist (Password cfg) (dsn cfg)"
    unfolding dsn_def by (rule sublist_mid [where a = "User cfg @ '':''"]) simp
  have h: "sublist (Host cfg) (dsn cfg)"
    unfolding dsn_def
    by (rule sublist_mid [where a = "User cfg @ '':'' @ Password cfg @ ''@tcp(''"]) simp
  have po: "sublist (fmt_d (Port cfg)) (dsn cfg)"
    unfolding dsn_def
    by (rule sublist_mid
          [where a = "User cfg @ '':'' @ Password cfg @ ''@tcp('' @ Host cfg @ '':''"]) simp
  have d: "sublist (DbName cfg) (dsn cfg)"
    unfolding dsn_def
    by (rule sublist_mid
          [where a = "User cfg @ '':'' @ Password cfg @ ''@tcp('' @ Host cfg @ '':''
                      @ fmt_d (Port cfg) @ '')/''"]) simp
  have ok: "Connect ''mysql'' (dsn cfg) = None \<longrightarrow>
        mysql_Init Connect cfg p =
          (None, p\<lparr>trace := trace p @ [SqlxConnect ''mysql'' (dsn cfg),
                     SetMaxOpenConns (MaxOpenConns cfg), SetMaxIdleConns (MaxIdleConns cfg)],
                   db := Some (SqlxDB ''mysql'' (dsn cfg))\<rparr>)"
    by (simp add: mysql_Init_def emit_def)
  have ko: "\<forall>err. Connect ''mysql'' (dsn cfg) = Some err \<longrightarrow>
        mysql_Init Connect cfg p =
          (Some err, p\<lparr>trace := trace p @ [SqlxConnect ''mysql'' (dsn cfg),
                     ZapError ''connect to DB failed'' err], db := None\<rparr>)"
    by (simp add: mysql_Init_def emit_def)
  from frame u pw h po d ok ko show ?thesis by blast
qed

text \<open>The sample configuration, with a database that answers and with one that refuses.\<close>

theorem mysql_Init_spec_witness:
  "mysql_Init (\<lambda>driverName dataSourceName. None) sample_MySQLConfig start =
     (None, start\<lparr>trace :=
        [SqlxConnect ''mysql''
           ''root:secret@tcp(127.0.0.1:3306)/app?charset=utf8mb4&parseTime=true'',
         SetMaxOpenConns 200, SetMaxIdleConns 50],
        db := Some (SqlxDB ''mysql''
           ''root:secret@tcp(127.0.0.1:3306)/app?charset=utf8mb4&parseTime=true'')\<rparr>)
   \<and> mysql_Init (\<lambda>driverName dataSourceName. Some (Errorf ''connection refused''))
        sample_MySQLConfig start =
     (Some (Errorf ''connection refused''), start\<lparr>trace :=
        [SqlxConnect ''mysql''
           ''root:secret@tcp(127.0.0.1:3306)/app?charset=utf8mb4&parseTime=true'',
         ZapError ''connect to DB failed'' (Errorf ''connection refused'')],
        db := None\<rparr>)"
proof -
  note ok = mysql_Init_spec [of sample_MySQLConfig "\<lambda>driverName dataSourceName. None" start,
      THEN conjunct2, THEN conjunct2, THEN conjunct2, THEN conjunct2, THEN conjunct2,
      THEN conjunct2, THEN conjunct1, rule_format]
  note ko = mysql_Init_spec [of sample_MySQLConfig
      "\<lambda>driverName dataSourceName. Some (Errorf ''connection refused'')" start,
      THEN conjunct2, THEN conjunct2, THEN conjunct2, THEN conjunct2, THEN conjunct2,
      THEN conjunct2, THEN conjunct2, rule_format, of "Errorf ''connection refused''"]
  have limits: "MaxOpenConns sample_MySQLConfig = 200" "MaxIdleConns sample_MySQLConfig = 50"
    by (simp_all add: sample_MySQLConfig_def)
  have "trace start = []"
    by (simp add: start_def)
  with ok ko limits show ?thesis
    by (simp add: sample_dsn)
qed

text \<open>
  Claim C8. \<open>mysql.Close\<close> called while the package variable \<open>db\<close> is nil panics with a
  nil pointer dereference, and it returns normally exactly when \<open>db\<close> is not nil. That is
  the case before any \<open>Init\<close> and after an \<open>Init\<close> that failed; after an \<open>Init\<close> that
  succeeded \<open>Close\<close> returns.
\<close>

theorem mysql_Close_requires_Init:
  "(db p = None \<longrightarrow> mysql_Close p = Inl NilPointerDereference)
   \<and> ((\<exists>p'. mysql_Close p = Inr p') \<longleftrightarrow> db p \<noteq> None)
   \<and> mysql_Close start = Inl NilPointerDereference
   \<and> (fst (mysql_Init Connect cfg p) = None \<longrightarrow>
        (\<exists>p'. mysql_Close (snd (mysql_Init Connect cfg p)) = Inr p'))
   \<and> (fst (mysql_Init Connect cfg p) \<noteq> None \<longrightarrow>
        mysql_Close (snd (mysql_Init Connect cfg p)) = Inl NilPointerDereference)"
  by (auto simp: mysql_Close_def mysql_Init_def emit_def start_def Let_def split: option.splits)

theorem mysql_Close_requires_Init_witness:
  "db start = None \<and> mysql_Close start = Inl NilPointerDereference
   \<and> fst (mysql_Init (\<lambda>driverName dataSourceName. None) sample_MySQLConfig start) = None
   \<and> (\<exists>p'. mysql_Close
         (snd (mysql_Init (\<lambda>driverName dataSourceName. None) sample_MySQLConfig start)) = Inr p')"
  using mysql_Close_requires_Init
          [of start "\<lambda>driverName dataSourceName. None" sample_MySQLConfig]
  by (simp add: start_def mysql_Init_def emit_def)

section \<open>Package logger: Init\<close>

text \<open>
  Claim C10. \<open>logger.Init\<close> returns an error if and only if parsing the configured level
  fails, and then it returns that error and leaves the global logger as it was. When the
  level parses, \<open>Init\<close> returns nil and installs as the global logger of zap a logger with
  a JSON encoder, the rotating file writer built from the configured file name, size,
  backups and age, and the parsed level.
\<close>

theorem logger_Init_spec:
  "(fst (logger_Init UnmarshalText production cfg p) \<noteq> None
      \<longleftrightarrow> (\<exists>err. UnmarshalText (Level cfg) = Inl err))
   \<and> (\<forall>err. UnmarshalText (Level cfg) = Inl err \<longrightarrow>
        logger_Init UnmarshalText production cfg p = (Some err, p))
   \<and> (\<forall>level. UnmarshalText (Level cfg) = Inr level \<longrightarrow>
        logger_Init UnmarshalText production cfg p =
          (None, p\<lparr>globalL := Some (zap_New
             (NewCore
                (NewJSONEncoder (production\<lparr>EncodeTime := ISO8601TimeEncoder, TimeKey := ''time'',
                   EncodeLevel := CapitalLevelEncoder, EncodeDuration := SecondsDurationEncoder,
                   EncodeCaller := ShortCallerEncoder\<rparr>))
                (AddSync \<lparr>lj_Filename = Filename cfg, lj_MaxSize = MaxSize cfg,
                          lj_MaxBackups = MaxBackups cfg, lj_MaxAge = MaxAge cfg\<rparr>)
                level)
             [AddCaller])\<rparr>))"
  by (auto simp: logger_Init_def getLogWriter_def getEncoder_def ReplaceGlobals_def
      split: sum.splits)

text \<open>The sample configuration, whose level is \<open>debug\<close>, and the same with the level
  \<open>verbose\<close>, which is no level of zap.\<close>

theorem logger_Init_spec_witness:
  "sample_UnmarshalText (Level sample_LogConfig) = Inr DebugLevel
   \<and> fst (logger_Init sample_UnmarshalText sample_EncoderConfig sample_LogConfig start) = None
   \<and> globalL (snd (logger_Init sample_UnmarshalText sample_EncoderConfig sample_LogConfig start))
       = Some (zap_New
           (NewCore
              (NewJSONEncoder \<lparr>TimeKey = ''time'', EncodeTime = ISO8601TimeEncoder,
                 EncodeLevel = CapitalLevelEncoder, EncodeDuration = SecondsDurationEncoder,
                 EncodeCaller = ShortCallerEncoder\<rparr>)
              (AddSync \<lparr>lj_Filename = ''web_app.log'', lj_MaxSize = 200, lj_MaxBackups = 7,
                        lj_MaxAge = 30\<rparr>)
              DebugLevel)
           [AddCaller])
   \<and> sample_UnmarshalText (Level (sample_LogConfig\<lparr>Level := ''verbose''\<rparr>))
        = Inl (Errorf ''unrecognized level: verbose'')
   \<and> logger_Init sample_UnmarshalText sample_EncoderConfig
        (sample_LogConfig\<lparr>Level := ''verbose''\<rparr>) start
        = (Some (Errorf ''unrecognized level: verbose''), start)"
proof -
  have ok: "sample_UnmarshalText (Level sample_LogConfig) = Inr DebugLevel"
    by (simp add: sample_UnmarshalText_def sample_LogConfig_def)
  have ko: "sample_UnmarshalText (Level (sample_LogConfig\<lparr>Level := ''verbose''\<rparr>))
        = Inl (Errorf ''unrecognized level: verbose'')"
    by (simp add: sample_UnmarshalText_def sample_LogConfig_def)
  from ok ko
    logger_Init_spec [of sample_UnmarshalText sample_EncoderConfig sample_LogConfig start]
    logger_Init_spec [of sample_UnmarshalText sample_EncoderConfig
      "sample_LogConfig\<lparr>Level := ''verbose''\<rparr>" start]
  show ?thesis
    by (simp add: sample_LogConfig_def sample_EncoderConfig_def)
qed

section \<open>Facts about the supervisor used by several proofs\<close>

lemma first_failure_None:
  "first_failure w = None \<longleftrightarrow>
     settings_Init w = None
     \<and> (\<exists>level. zap_UnmarshalText w (Level (Conf_LogConfig (settings_Conf w))) = Inr level)
     \<and> sqlx_Connect w ''mysql'' (dsn (Conf_MySQLConfig (settings_Conf w))) = None
     \<and> redis_Init w = None"
  by (auto simp: first_failure_def split: option.splits sum.splits)

lemma main_init_failure:
  assumes "first_failure w = Some err"
  shows "fst (main w) = Returned"
    and "init_failed err \<in> set (trace (snd (main w)))"
    and "GoListenAndServe a \<notin> set (trace (snd (main w)))"
    and "SignalNotify sigs \<notin> set (trace (snd (main w)))"
    and "Receive s \<notin> set (trace (snd (main w)))"
    and "Shutdown d r \<notin> set (trace (snd (main w)))"
  using assms
  by (auto simp: first_failure_def main_unfold Let_def split: option.splits sum.splits)

lemma main_Never:
  assumes "first_failure w = None" and "wait_quit [SIGINT, SIGTERM] (arrivals w) = Never"
  shows "fst (main w) = Blocked" and "trace (snd (main w)) = startup_calls w"
  using assms
  by (auto simp: first_failure_def main_unfold startup_calls_def Let_def
      split: option.splits sum.splits)

lemma main_Ended:
  assumes "first_failure w = None" and "wait_quit [SIGINT, SIGTERM] (arrivals w) = Ended s"
  shows "fst (main w) = KilledBy s" and "trace (snd (main w)) = startup_calls w"
  using assms
  by (auto simp: first_failure_def main_unfold startup_calls_def Let_def
      split: option.splits sum.splits)

lemma main_ListenFatal:
  assumes "first_failure w = None" and "wait_quit [SIGINT, SIGTERM] (arrivals w) = ListenFatal es"
  shows "fst (main w) = Exited 1" and "trace (snd (main w)) = startup_calls w @ es"
  using assms
  by (auto simp: first_failure_def main_unfold startup_calls_def Let_def
      split: option.splits sum.splits)

lemma main_Got_nil:
  assumes "first_failure w = None" and "wait_quit [SIGINT, SIGTERM] (arrivals w) = Got s"
    and "srv_Shutdown w = None"
  shows "fst (main w) = Returned"
    and "trace (snd (main w)) = startup_calls w @
           [Receive s, ZapInfo ''Shutdown Server ...'', WithTimeout (5 * Second),
            Shutdown (5 * Second) None, Cancel, RedisClose,
            DBClose (SqlxDB ''mysql'' (dsn (Conf_MySQLConfig (settings_Conf w)))), ZapSync]"
    and "defers (snd (main w)) = []"
  using assms
  by (auto simp: first_failure_def main_unfold startup_calls_def Let_def
      split: option.splits sum.splits)

lemma main_Got_error:
  assumes "first_failure w = None" and "wait_quit [SIGINT, SIGTERM] (arrivals w) = Got s"
    and "srv_Shutdown w = Some err"
  shows "fst (main w) = Exited 1"
    and "trace (snd (main w)) = startup_calls w @
           [Receive s, ZapInfo ''Shutdown Server ...'', WithTimeout (5 * Second),
            Shutdown (5 * Second) (Some err), ZapFatal ''Server Shutdown'' err, OsExit 1]"
    and "defers (snd (main w)) = [DeferCancel, DeferRedisClose, DeferMysqlClose, DeferSync]"
  using assms
  by (auto simp: first_failure_def main_unfold startup_calls_def Let_def
      split: option.splits sum.splits)

lemma wait_quit_Got:
  "wait_quit sigs as = Got s \<Longrightarrow> s \<in> set sigs \<and> Signal s \<in> set as"
proof (induction as)
  case Nil
  then show ?case by simp
next
  case (Cons a as)
  show ?case
  proof (cases a)
    case (Signal x)
    with Cons show ?thesis by (auto split: if_splits)
  next
    case (ListenAndServeReturns r)
    with Cons show ?thesis by (auto split: list.splits)
  qed
qed

lemma wait_quit_ListenFatal:
  "wait_quit sigs as = ListenFatal es \<Longrightarrow>
     \<exists>err. err \<noteq> ErrServerClosed \<and> ListenAndServeReturns (Some err) \<in> set as
       \<and> es = [LogFatalf (''listen: '' @ Error err @ ''\<newline>''), OsExit 1]"
proof (induction as)
  case Nil
  then show ?case by simp
next
  case (Cons a as)
  show ?case
  proof (cases a)
    case (Signal x)
    with Cons show ?thesis by (auto split: if_splits)
  next
    case (ListenAndServeReturns r)
    with Cons show ?thesis
      by (auto simp: serve_task_def split: list.splits option.splits if_splits)
  qed
qed

lemma sample_first_failure: "first_failure sample_world = None"
  by (simp add: first_failure_def sample_world_def sample_UnmarshalText_def sample_LogConfig_def)

lemma sample_wait_quit: "wait_quit [SIGINT, SIGTERM] (arrivals sample_world) = Got SIGINT"
  by (simp add: sample_world_def ends_process_def)

lemma sample_srv_Shutdown: "srv_Shutdown sample_world = None"
  by (simp add: sample_world_def)

lemma sample_startup_calls:
  "startup_calls sample_world =
     [SettingsInit, ZapDebug ''logger init success...'',
      SqlxConnect ''mysql''
        ''root:secret@tcp(127.0.0.1:3306)/app?charset=utf8mb4&parseTime=true'',
      SetMaxOpenConns 200, SetMaxIdleConns 50, RedisInit, RoutesSetup,
      GoListenAndServe '':8081'', SignalNotify [SIGINT, SIGTERM]]"
  by (simp add: startup_calls_def sample_world_def sample_dsn fmt_d_def decimal.simps digit_def)
     (simp add: sample_MySQLConfig_def)

lemma startup_calls_update [simp]:
  "startup_calls (w\<lparr>arrivals := as\<rparr>) = startup_calls w"
  "startup_calls (w\<lparr>srv_Shutdown := r\<rparr>) = startup_calls w"
  "startup_calls (w\<lparr>redis_Init := e\<rparr>) = startup_calls w"
  by (simp_all add: startup_calls_def)

lemma first_failure_update [simp]:
  "first_failure (w\<lparr>arrivals := as\<rparr>) = first_failure w"
  "first_failure (w\<lparr>srv_Shutdown := r\<rparr>) = first_failure w"
  by (simp_all add: first_failure_def split: option.split sum.split)

lemma Second_5: "5 * Second = 5000000000"
  by (simp add: Second_def)

lemma trace_cases:
  assumes "first_failure w = None"
  obtains
    (never) "wait_quit [SIGINT, SIGTERM] (arrivals w) = Never"
      "trace (snd (main w)) = startup_calls w"
  | (ended) s where "wait_quit [SIGINT, SIGTERM] (arrivals w) = Ended s"
      "trace (snd (main w)) = startup_calls w"
  | (fatal) err where
      "wait_quit [SIGINT, SIGTERM] (arrivals w) =
         ListenFatal [LogFatalf (''listen: '' @ Error err @ ''\<newline>''), OsExit 1]"
      "trace (snd (main w)) =
         startup_calls w @ [LogFatalf (''listen: '' @ Error err @ ''\<newline>''), OsExit 1]"
  | (nil) s where "wait_quit [SIGINT, SIGTERM] (arrivals w) = Got s" "srv_Shutdown w = None"
      "trace (snd (main w)) = startup_calls w @
           [Receive s, ZapInfo ''Shutdown Server ...'', WithTimeout (5 * Second),
            Shutdown (5 * Second) None, Cancel, RedisClose,
            DBClose (SqlxDB ''mysql'' (dsn (Conf_MySQLConfig (settings_Conf w)))), ZapSync]"
  | (error) s err where "wait_quit [SIGINT, SIGTERM] (arrivals w) = Got s"
      "srv_Shutdown w = Some err"
      "trace (snd (main w)) = startup_calls w @
           [Receive s, ZapInfo ''Shutdown Server ...'', WithTimeout (5 * Second),
            Shutdown (5 * Second) (Some err), ZapFatal ''Server Shutdown'' err, OsExit 1]"
proof (cases "wait_quit [SIGINT, SIGTERM] (arrivals w)")
  case (Got s)
  show ?thesis
  proof (cases "srv_Shutdown w")
    case None
    with Got main_Got_nil(2) [OF assms Got None] nil show ?thesis by blast
  next
    case (Some err)
    with Got main_Got_error(2) [OF assms Got Some] error show ?thesis by blast
  qed
next
  case (ListenFatal es)
  from wait_quit_ListenFatal [OF ListenFatal] obtain err where
    "es = [LogFatalf (''listen: '' @ Error err @ ''\<newline>''), OsExit 1]" by blast
  with ListenFatal main_ListenFatal(2) [OF assms ListenFatal] fatal show ?thesis by blast
next
  case (Ended s)
  with main_Ended(2) [OF assms Ended] ended show ?thesis by blast
next
  case Never
  with main_Never(2) [OF assms Never] never show ?thesis by blast
qed

lemma Shutdown_in_trace:
  assumes "Shutdown d r \<in> set (trace (snd (main w)))"
  obtains s where "first_failure w = None" "wait_quit [SIGINT, SIGTERM] (arrivals w) = Got s"
    "d = 5 * Second" "r = srv_Shutdown w"
proof (cases "first_failure w")
  case (Some err)
  with main_init_failure(6) [of w err d r] assms show ?thesis by simp
next
  case None
  then show ?thesis
  proof (cases rule: trace_cases)
    case never
    with assms show ?thesis by (simp add: startup_calls_def)
  next
    case (ended s)
    with assms show ?thesis by (simp add: startup_calls_def)
  next
    case (fatal err)
    with assms show ?thesis by (simp add: startup_calls_def)
  next
    case (nil s)
    with assms None that [of s] show ?thesis by (simp add: startup_calls_def)
  next
    case (error s err)
    with assms None that [of s] show ?thesis by (simp add: startup_calls_def)
  qed
qed

lemma split_unique:
  assumes "x \<notin> set A" and "x \<notin> set C" and "A @ x # C = pre @ x # post"
  shows "pre = A"
  using append_Cons_eq_iff [OF assms(1,2), of pre post] assms(3) by simp

lemma before_Shutdown:
  assumes "trace (snd (main w)) = pre @ Shutdown d r # post"
  obtains s where "first_failure w = None" "wait_quit [SIGINT, SIGTERM] (arrivals w) = Got s"
    "pre = startup_calls w @ [Receive s, ZapInfo ''Shutdown Server ...'', WithTimeout (5 * Second)]"
proof -
  from assms have "Shutdown d r \<in> set (trace (snd (main w)))" by simp
  then obtain s where ff: "first_failure w = None"
    and wq: "wait_quit [SIGINT, SIGTERM] (arrivals w) = Got s"
    and d: "d = 5 * Second" and r: "r = srv_Shutdown w"
    by (rule Shutdown_in_trace)
  let ?A = "startup_calls w @ [Receive s, ZapInfo ''Shutdown Server ...'', WithTimeout (5 * Second)]"
  have notA: "Shutdown d r \<notin> set ?A"
    by (simp add: startup_calls_def)
  have "\<exists>C. trace (snd (main w)) = ?A @ Shutdown d r # C \<and> Shutdown d r \<notin> set C"
  proof (cases "srv_Shutdown w")
    case None
    have "trace (snd (main w)) = ?A @ Shutdown d r #
        [Cancel, RedisClose,
         DBClose (SqlxDB ''mysql'' (dsn (Conf_MySQLConfig (settings_Conf w)))), ZapSync]"
      unfolding main_Got_nil(2) [OF ff wq None] d r None by simp
    moreover have "Shutdown d r \<notin> set [Cancel, RedisClose,
         DBClose (SqlxDB ''mysql'' (dsn (Conf_MySQLConfig (settings_Conf w)))), ZapSync]"
      by simp
    ultimately show ?thesis by blast
  next
    case (Some err)
    have "trace (snd (main w)) = ?A @ Shutdown d r #
        [ZapFatal ''Server Shutdown'' err, OsExit 1]"
      unfolding main_Got_error(2) [OF ff wq Some] d r Some by simp
    moreover have "Shutdown d r \<notin> set [ZapFatal ''Server Shutdown'' err, OsExit 1]"
      by simp
    ultimately show ?thesis by blast
  qed
  then obtain C where C: "trace (snd (main w)) = ?A @ Shutdown d r # C"
    and notC: "Shutdown d r \<notin> set C" by blast
  from assms have "?A @ Shutdown d r # C = pre @ Shutdown d r # post" unfolding C .
  with notA notC have "pre = ?A" by (rule split_unique)
  with ff wq that show ?thesis by blast
qed

section \<open>The supervisor: start, wait and shutdown\<close>

text \<open>
  Claim C2. The HTTP listener is started only when configuration loading, logger
  initialisation, database initialisation and cache initialisation have all succeeded.
  When one of them fails, \<open>main\<close> prints the error of the first that failed and
  returns, and no listener is started.
\<close>

theorem listener_needs_inits:
  "(first_failure w = None \<longleftrightarrow>
      settings_Init w = None
      \<and> (\<exists>level. zap_UnmarshalText w (Level (Conf_LogConfig (settings_Conf w))) = Inr level)
      \<and> sqlx_Connect w ''mysql'' (dsn (Conf_MySQLConfig (settings_Conf w))) = None
      \<and> redis_Init w = None)
   \<and> (GoListenAndServe addr \<in> set (trace (snd (main w))) \<longrightarrow> first_failure w = None)
   \<and> (\<forall>err. first_failure w = Some err \<longrightarrow>
         fst (main w) = Returned
         \<and> FmtPrintf (''init setting failed error:'' @ Error err @ ''\<newline>'')
              \<in> set (trace (snd (main w)))
         \<and> (\<forall>a. GoListenAndServe a \<notin> set (trace (snd (main w)))))"
proof -
  have a: "GoListenAndServe addr \<in> set (trace (snd (main w))) \<longrightarrow> first_failure w = None"
    using main_init_failure(3) [of w _ addr] by (cases "first_failure w") auto
  have b: "\<forall>err. first_failure w = Some err \<longrightarrow>
         fst (main w) = Returned
         \<and> FmtPrintf (''init setting failed error:'' @ Error err @ ''\<newline>'')
              \<in> set (trace (snd (main w)))
         \<and> (\<forall>a. GoListenAndServe a \<notin> set (trace (snd (main w))))"
    using main_init_failure(1,2,3) [of w] by (simp add: init_failed_def)
  from first_failure_None [of w] a b show ?thesis by blast
qed

theorem listener_needs_inits_witness:
  "first_failure (sample_world\<lparr>redis_Init := Some (Errorf ''connection refused'')\<rparr>)
     = Some (Errorf ''connection refused'')
   \<and> fst (main (sample_world\<lparr>redis_Init := Some (Errorf ''connection refused'')\<rparr>)) = Returned
   \<and> FmtPrintf ''init setting failed error:connection refused\<newline>''
        \<in> set (trace (snd (main (sample_world\<lparr>redis_Init := Some (Errorf ''connection refused'')\<rparr>))))
   \<and> GoListenAndServe '':8081''
        \<notin> set (trace (snd (main (sample_world\<lparr>redis_Init := Some (Errorf ''connection refused'')\<rparr>))))
   \<and> GoListenAndServe '':8081'' \<in> set (trace (snd (main sample_world)))
   \<and> first_failure sample_world = None"
proof -
  let ?w = "sample_world\<lparr>redis_Init := Some (Errorf ''connection refused'')\<rparr>"
  have ff: "first_failure ?w = Some (Errorf ''connection refused'')"
    by (simp add: first_failure_def sample_world_def sample_UnmarshalText_def
        sample_LogConfig_def)
  have started: "GoListenAndServe '':8081'' \<in> set (trace (snd (main sample_world)))"
    using main_Got_nil(2) [OF sample_first_failure sample_wait_quit sample_srv_Shutdown]
    by (simp add: sample_startup_calls)
  from ff started listener_needs_inits [of ?w "'':8081''"]
    listener_needs_inits [of sample_world "'':8081''"]
  show ?thesis by simp
qed

text \<open>
  Claim C3. When a termination signal is received, interrupt or terminate, \<open>main\<close>
  calls \<open>srv.Shutdown\<close> with a context whose timeout is \<open>5 * time.Second\<close>, that is
  5000000000 nanoseconds; every call of \<open>Shutdown\<close> in a run carries that timeout.
\<close>

theorem shutdown_deadline_5s:
  "(first_failure w = None \<and> wait_quit [SIGINT, SIGTERM] (arrivals w) = Got s \<longrightarrow>
      (s = SIGINT \<or> s = SIGTERM)
      \<and> (\<exists>post. trace (snd (main w)) =
            startup_calls w @ [Receive s, ZapInfo ''Shutdown Server ...'',
              WithTimeout 5000000000, Shutdown 5000000000 (srv_Shutdown w)] @ post))
   \<and> (Shutdown d r \<in> set (trace (snd (main w))) \<longrightarrow> d = 5000000000 \<and> r = srv_Shutdown w)
   \<and> wait_quit [SIGINT, SIGTERM] (Signal SIGINT # rest) = Got SIGINT
   \<and> wait_quit [SIGINT, SIGTERM] (Signal SIGTERM # rest) = Got SIGTERM
   \<and> 5 * Second = 5000000000"
proof -
  have a: "(s = SIGINT \<or> s = SIGTERM)
      \<and> (\<exists>post. trace (snd (main w)) =
            startup_calls w @ [Receive s, ZapInfo ''Shutdown Server ...'',
              WithTimeout 5000000000, Shutdown 5000000000 (srv_Shutdown w)] @ post)"
    if ff: "first_failure w = None" and wq: "wait_quit [SIGINT, SIGTERM] (arrivals w) = Got s"
  proof
    from wait_quit_Got [OF wq] show "s = SIGINT \<or> s = SIGTERM" by simp
  next
    show "\<exists>post. trace (snd (main w)) =
            startup_calls w @ [Receive s, ZapInfo ''Shutdown Server ...'',
              WithTimeout 5000000000, Shutdown 5000000000 (srv_Shutdown w)] @ post"
    proof (cases "srv_Shutdown w")
      case None
      with main_Got_nil(2) [OF ff wq None] show ?thesis by (simp add: Second_5)
    next
      case (Some err)
      with main_Got_error(2) [OF ff wq Some] show ?thesis by (simp add: Second_5)
    qed
  qed
  have b: "d = 5000000000 \<and> r = srv_Shutdown w"
    if "Shutdown d r \<in> set (trace (snd (main w)))"
    using that by (rule Shutdown_in_trace) (simp add: Second_5)
  have c: "wait_quit [SIGINT, SIGTERM] (Signal SIGINT # rest) = Got SIGINT"
    "wait_quit [SIGINT, SIGTERM] (Signal SIGTERM # rest) = Got SIGTERM"
    by simp_all
  from a b c Second_5 show ?thesis by blast
qed

theorem shutdown_deadline_5s_witness:
  "first_failure sample_world = None
   \<and> wait_quit [SIGINT, SIGTERM] (arrivals sample_world) = Got SIGINT
   \<and> (\<exists>post. trace (snd (main sample_world)) =
         startup_calls sample_world @ [Receive SIGINT, ZapInfo ''Shutdown Server ...'',
           WithTimeout 5000000000, Shutdown 5000000000 None] @ post)
   \<and> first_failure (sample_world\<lparr>arrivals := [Signal SIGTERM]\<rparr>) = None
   \<and> wait_quit [SIGINT, SIGTERM] (arrivals (sample_world\<lparr>arrivals := [Signal SIGTERM]\<rparr>))
        = Got SIGTERM
   \<and> (\<exists>post. trace (snd (main (sample_world\<lparr>arrivals := [Signal SIGTERM]\<rparr>))) =
         startup_calls sample_world @ [Receive SIGTERM, ZapInfo ''Shutdown Server ...'',
           WithTimeout 5000000000, Shutdown 5000000000 None] @ post)"
  using shutdown_deadline_5s [of sample_world SIGINT]
    shutdown_deadline_5s [of "sample_world\<lparr>arrivals := [Signal SIGTERM]\<rparr>" SIGTERM]
    sample_first_failure sample_wait_quit sample_srv_Shutdown
  by simp

text \<open>
  Claim C4. Once the listener is started \<open>main\<close> registers exactly the two signals
  \<open>SIGINT\<close> and \<open>SIGTERM\<close> and waits: its next call is the one after the receipt of one
  of these two signals, which did arrive; until then it makes no call (the run ends there
  when no such signal arrives, and the only calls that may follow are the ones of the
  listener task). Every call of \<open>Shutdown\<close> has the registration and the receipt of
  such a signal before it.
\<close>

theorem main_waits_for_signal:
  "(first_failure w = None \<longrightarrow>
      last (startup_calls w) = SignalNotify [SIGINT, SIGTERM]
      \<and> (\<exists>rest. trace (snd (main w)) = startup_calls w @ rest
            \<and> (case wait_quit [SIGINT, SIGTERM] (arrivals w) of
                 Never \<Rightarrow> rest = [] \<and> fst (main w) = Blocked
               | Ended s \<Rightarrow> rest = [] \<and> fst (main w) = KilledBy s
               | ListenFatal es \<Rightarrow> rest = es \<and> fst (main w) = Exited 1
               | Got s \<Rightarrow> (s = SIGINT \<or> s = SIGTERM) \<and> Signal s \<in> set (arrivals w)
                   \<and> (\<exists>post. rest = Receive s # post))))
   \<and> (SignalNotify sigs \<in> set (trace (snd (main w))) \<longrightarrow> sigs = [SIGINT, SIGTERM])
   \<and> (trace (snd (main w)) = pre @ Shutdown d r # post \<longrightarrow>
        (\<exists>s. (s = SIGINT \<or> s = SIGTERM) \<and> Signal s \<in> set (arrivals w)
           \<and> SignalNotify [SIGINT, SIGTERM] \<in> set pre \<and> Receive s \<in> set pre))"
proof -
  have a: "last (startup_calls w) = SignalNotify [SIGINT, SIGTERM]
      \<and> (\<exists>rest. trace (snd (main w)) = startup_calls w @ rest
            \<and> (case wait_quit [SIGINT, SIGTERM] (arrivals w) of
                 Never \<Rightarrow> rest = [] \<and> fst (main w) = Blocked
               | Ended s \<Rightarrow> rest = [] \<and> fst (main w) = KilledBy s
               | ListenFatal es \<Rightarrow> rest = es \<and> fst (main w) = Exited 1
               | Got s \<Rightarrow> (s = SIGINT \<or> s = SIGTERM) \<and> Signal s \<in> set (arrivals w)
                   \<and> (\<exists>post. rest = Receive s # post)))"
    if ff: "first_failure w = None"
  proof
    show "last (startup_calls w) = SignalNotify [SIGINT, SIGTERM]"
      by (simp add: startup_calls_def)
  next
    show "\<exists>rest. trace (snd (main w)) = startup_calls w @ rest
            \<and> (case wait_quit [SIGINT, SIGTERM] (arrivals w) of
                 Never \<Rightarrow> rest = [] \<and> fst (main w) = Blocked
               | Ended s \<Rightarrow> rest = [] \<and> fst (main w) = KilledBy s
               | ListenFatal es \<Rightarrow> rest = es \<and> fst (main w) = Exited 1
               | Got s \<Rightarrow> (s = SIGINT \<or> s = SIGTERM) \<and> Signal s \<in> set (arrivals w)
                   \<and> (\<exists>post. rest = Receive s # post))"
    proof (cases "wait_quit [SIGINT, SIGTERM] (arrivals w)")
      case Never
      with main_Never [OF ff Never] show ?thesis by simp
    next
      case (Ended s)
      with main_Ended [OF ff Ended] show ?thesis by simp
    next
      case (ListenFatal es)
      with main_ListenFatal [OF ff ListenFatal] show ?thesis by simp
    next
      case (Got s)
      from wait_quit_Got [OF Got] have s: "s = SIGINT \<or> s = SIGTERM" "Signal s \<in> set (arrivals w)"
        by simp_all
      show ?thesis
      proof (cases "srv_Shutdown w")
        case None
        with main_Got_nil(2) [OF ff Got None] s Got show ?thesis by simp
      next
        case (Some err)
        with main_Got_error(2) [OF ff Got Some] s Got show ?thesis by simp
      qed
    qed
  qed
  have b: "sigs = [SIGINT, SIGTERM]" if n: "SignalNotify sigs \<in> set (trace (snd (main w)))"
  proof (cases "first_failure w")
    case (Some err)
    with main_init_failure(4) [of w err sigs] n show ?thesis by simp
  next
    case None
    then show ?thesis using n
      by (cases rule: trace_cases) (auto simp: startup_calls_def)
  qed
  have c: "\<exists>s. (s = SIGINT \<or> s = SIGTERM) \<and> Signal s \<in> set (arrivals w)
           \<and> SignalNotify [SIGINT, SIGTERM] \<in> set pre \<and> Receive s \<in> set pre"
    if t: "trace (snd (main w)) = pre @ Shutdown d r # post"
  proof -
    from t obtain s where wq: "wait_quit [SIGINT, SIGTERM] (arrivals w) = Got s"
      and pre: "pre = startup_calls w @
        [Receive s, ZapInfo ''Shutdown Server ...'', WithTimeout (5 * Second)]"
      by (rule before_Shutdown)
    from wait_quit_Got [OF wq] have "s = SIGINT \<or> s = SIGTERM" "Signal s \<in> set (arrivals w)"
      by simp_all
    moreover from pre have "SignalNotify [SIGINT, SIGTERM] \<in> set pre" "Receive s \<in> set pre"
      by (simp_all add: startup_calls_def)
    ultimately show ?thesis by blast
  qed
  from a b c show ?thesis by blast
qed

theorem main_waits_for_signal_witness:
  "first_failure sample_world = None
   \<and> (\<exists>rest. trace (snd (main sample_world)) = startup_calls sample_world @ rest
         \<and> Signal SIGINT \<in> set (arrivals sample_world)
         \<and> (\<exists>post. rest = Receive SIGINT # post))
   \<and> first_failure (sample_world\<lparr>arrivals := [Signal SIGUSR1]\<rparr>) = None
   \<and> trace (snd (main (sample_world\<lparr>arrivals := [Signal SIGUSR1]\<rparr>)))
        = startup_calls sample_world
   \<and> fst (main (sample_world\<lparr>arrivals := [Signal SIGUSR1]\<rparr>)) = Blocked"
proof -
  have never: "wait_quit [SIGINT, SIGTERM] (arrivals (sample_world\<lparr>arrivals := [Signal SIGUSR1]\<rparr>))
      = Never"
    by (simp add: ends_process_def)
  from main_waits_for_signal [of sample_world] sample_first_failure sample_wait_quit
  have 1: "\<exists>rest. trace (snd (main sample_world)) = startup_calls sample_world @ rest
         \<and> Signal SIGINT \<in> set (arrivals sample_world)
         \<and> (\<exists>post. rest = Receive SIGINT # post)"
    by simp
  from main_waits_for_signal [of "sample_world\<lparr>arrivals := [Signal SIGUSR1]\<rparr>"]
    sample_first_failure never
  have 2: "trace (snd (main (sample_world\<lparr>arrivals := [Signal SIGUSR1]\<rparr>)))
        = startup_calls sample_world
     \<and> fst (main (sample_world\<lparr>arrivals := [Signal SIGUSR1]\<rparr>)) = Blocked"
    by simp
  from 1 2 sample_first_failure show ?thesis by simp
qed

text \<open>
  Claim C5. On a normal shutdown (every initialisation succeeded, a termination signal
  was received, \<open>Shutdown\<close> returned nil) \<open>main\<close> returns, no teardown happens before
  the call of \<open>Shutdown\<close>, and after it \<open>redis.Close\<close> and \<open>db.Close\<close> are called once
  each; no deferred call is left.
\<close>

theorem normal_shutdown_teardown_once:
  assumes "first_failure w = None"
    and "wait_quit [SIGINT, SIGTERM] (arrivals w) = Got s"
    and "srv_Shutdown w = None"
  shows "fst (main w) = Returned
    \<and> (\<exists>pre post. trace (snd (main w)) = pre @ Shutdown (5 * Second) None # post
          \<and> filter teardown pre = []
          \<and> filter teardown post =
              [RedisClose, DBClose (SqlxDB ''mysql'' (dsn (Conf_MySQLConfig (settings_Conf w))))])
    \<and> count_list (trace (snd (main w))) RedisClose = 1
    \<and> count_list (trace (snd (main w)))
         (DBClose (SqlxDB ''mysql'' (dsn (Conf_MySQLConfig (settings_Conf w))))) = 1
    \<and> defers (snd (main w)) = []"
proof -
  note t = main_Got_nil [OF assms]
  have "\<exists>pre post. trace (snd (main w)) = pre @ Shutdown (5 * Second) None # post
          \<and> filter teardown pre = []
          \<and> filter teardown post =
              [RedisClose, DBClose (SqlxDB ''mysql'' (dsn (Conf_MySQLConfig (settings_Conf w))))]"
    apply (rule exI [of _ "startup_calls w @
        [Receive s, ZapInfo ''Shutdown Server ...'', WithTimeout (5 * Second)]"])
    apply (rule exI [of _ "[Cancel, RedisClose,
        DBClose (SqlxDB ''mysql'' (dsn (Conf_MySQLConfig (settings_Conf w)))), ZapSync]"])
    apply (simp add: t(2) startup_calls_def)
    done
  moreover have "count_list (trace (snd (main w))) RedisClose = 1"
    "count_list (trace (snd (main w)))
         (DBClose (SqlxDB ''mysql'' (dsn (Conf_MySQLConfig (settings_Conf w))))) = 1"
    by (simp_all add: t(2) startup_calls_def)
  ultimately show ?thesis using t(1,3) by blast
qed

theorem normal_shutdown_teardown_once_witness:
  "first_failure sample_world = None
   \<and> wait_quit [SIGINT, SIGTERM] (arrivals sample_world) = Got SIGINT
   \<and> srv_Shutdown sample_world = None
   \<and> fst (main sample_world) = Returned
   \<and> count_list (trace (snd (main sample_world))) RedisClose = 1
   \<and> count_list (trace (snd (main sample_world)))
        (DBClose (SqlxDB ''mysql''
           ''root:secret@tcp(127.0.0.1:3306)/app?charset=utf8mb4&parseTime=true'')) = 1"
  using normal_shutdown_teardown_once [OF sample_first_failure sample_wait_quit sample_srv_Shutdown]
    sample_first_failure sample_wait_quit sample_srv_Shutdown
  by (simp add: sample_world_def sample_dsn)

text \<open>
  Claim C6. When \<open>ListenAndServe\<close> returns an error other than \<open>http.ErrServerClosed\<close>
  the task calls \<open>log.Fatalf\<close> with that error, which ends the process with status 1.
  When it returns \<open>http.ErrServerClosed\<close> the task makes no call and the run goes on as
  if nothing had arrived.
\<close>

theorem serve_task_fatal_unless_closed:
  "(err \<noteq> ErrServerClosed \<longrightarrow>
      serve_task (Some err) = [LogFatalf (''listen: '' @ Error err @ ''\<newline>''), OsExit 1]
      \<and> (first_failure w = None \<and> arrivals w = ListenAndServeReturns (Some err) # rest \<longrightarrow>
           fst (main w) = Exited 1
           \<and> trace (snd (main w)) =
                startup_calls w @ [LogFatalf (''listen: '' @ Error err @ ''\<newline>''), OsExit 1]))
   \<and> serve_task (Some ErrServerClosed) = []
   \<and> serve_task None = []
   \<and> (arrivals w = ListenAndServeReturns (Some ErrServerClosed) # rest \<longrightarrow>
        main w = main (w\<lparr>arrivals := rest\<rparr>))"
proof -
  have a: "serve_task (Some err) = [LogFatalf (''listen: '' @ Error err @ ''\<newline>''), OsExit 1]"
    if "err \<noteq> ErrServerClosed"
    using that by (simp add: serve_task_def)
  have b: "fst (main w) = Exited 1
           \<and> trace (snd (main w)) =
                startup_calls w @ [LogFatalf (''listen: '' @ Error err @ ''\<newline>''), OsExit 1]"
    if ne: "err \<noteq> ErrServerClosed" and ff: "first_failure w = None"
      and ar: "arrivals w = ListenAndServeReturns (Some err) # rest"
  proof -
    from ar a [OF ne] have "wait_quit [SIGINT, SIGTERM] (arrivals w) =
        ListenFatal [LogFatalf (''listen: '' @ Error err @ ''\<newline>''), OsExit 1]"
      by simp
    from main_ListenFatal [OF ff this] show ?thesis by simp
  qed
  have c: "serve_task (Some ErrServerClosed) = []" "serve_task None = []"
    by (simp_all add: serve_task_def)
  have d: "main w = main (w\<lparr>arrivals := rest\<rparr>)"
    if "arrivals w = ListenAndServeReturns (Some ErrServerClosed) # rest"
    using that
    by (simp add: main_def serve_task_def Let_def split: option.split prod.split wakeup.split)
  from a b c d show ?thesis by blast
qed

theorem serve_task_fatal_unless_closed_witness:
  "Errorf ''listen tcp :8081: bind: address already in use'' \<noteq> ErrServerClosed
   \<and> first_failure (sample_world\<lparr>arrivals := [ListenAndServeReturns
         (Some (Errorf ''listen tcp :8081: bind: address already in use''))]\<rparr>) = None
   \<and> fst (main (sample_world\<lparr>arrivals := [ListenAndServeReturns
         (Some (Errorf ''listen tcp :8081: bind: address already in use''))]\<rparr>)) = Exited 1
   \<and> trace (snd (main (sample_world\<lparr>arrivals := [ListenAndServeReturns
         (Some (Errorf ''listen tcp :8081: bind: address already in use''))]\<rparr>))) =
        startup_calls sample_world @
          [LogFatalf ''listen: listen tcp :8081: bind: address already in use\<newline>'', OsExit 1]
   \<and> main (sample_world\<lparr>arrivals :=
         [ListenAndServeReturns (Some ErrServerClosed), Signal SIGINT]\<rparr>)
       = main (sample_world\<lparr>arrivals := [Signal SIGINT]\<rparr>)"
  using serve_task_fatal_unless_closed
      [of "Errorf ''listen tcp :8081: bind: address already in use''"
          "sample_world\<lparr>arrivals := [ListenAndServeReturns
             (Some (Errorf ''listen tcp :8081: bind: address already in use''))]\<rparr>" "[]"]
    serve_task_fatal_unless_closed
      [of "Errorf ''x''"
          "sample_world\<lparr>arrivals :=
             [ListenAndServeReturns (Some ErrServerClosed), Signal SIGINT]\<rparr>" "[Signal SIGINT]"]
    sample_first_failure
  by simp

text \<open>
  Claim C1, at the sample world with \<open>Shutdown\<close> returning
  \<open>context.DeadlineExceeded\<close>: \<open>main\<close> logs the failure with \<open>zap.L().Fatal\<close>, which
  calls \<open>os.Exit(1)\<close>. The process ends there with its four deferred calls pending:
  neither \<open>mysql.Close\<close> nor \<open>redis.Close\<close> is called.
\<close>

theorem shutdown_error_skips_teardown:
  "fst (main (sample_world\<lparr>srv_Shutdown := Some DeadlineExceeded\<rparr>)) = Exited 1
   \<and> trace (snd (main (sample_world\<lparr>srv_Shutdown := Some DeadlineExceeded\<rparr>))) =
       [SettingsInit, ZapDebug ''logger init success...'',
        SqlxConnect ''mysql''
          ''root:secret@tcp(127.0.0.1:3306)/app?charset=utf8mb4&parseTime=true'',
        SetMaxOpenConns 200, SetMaxIdleConns 50, RedisInit, RoutesSetup,
        GoListenAndServe '':8081'', SignalNotify [SIGINT, SIGTERM],
        Receive SIGINT, ZapInfo ''Shutdown Server ...'', WithTimeout 5000000000,
        Shutdown 5000000000 (Some DeadlineExceeded),
        ZapFatal ''Server Shutdown'' DeadlineExceeded, OsExit 1]
   \<and> filter teardown (trace (snd (main (sample_world\<lparr>srv_Shutdown := Some DeadlineExceeded\<rparr>))))
       = []
   \<and> defers (snd (main (sample_world\<lparr>srv_Shutdown := Some DeadlineExceeded\<rparr>))) =
       [DeferCancel, DeferRedisClose, DeferMysqlClose, DeferSync]"
proof -
  let ?w = "sample_world\<lparr>srv_Shutdown := Some DeadlineExceeded\<rparr>"
  have ff: "first_failure ?w = None"
    using sample_first_failure by simp
  have wq: "wait_quit [SIGINT, SIGTERM] (arrivals ?w) = Got SIGINT"
    using sample_wait_quit by simp
  have sh: "srv_Shutdown ?w = Some DeadlineExceeded"
    by simp
  note t = main_Got_error [OF ff wq sh]
  have tr: "trace (snd (main ?w)) =
       [SettingsInit, ZapDebug ''logger init success...'',
        SqlxConnect ''mysql''
          ''root:secret@tcp(127.0.0.1:3306)/app?charset=utf8mb4&parseTime=true'',
        SetMaxOpenConns 200, SetMaxIdleConns 50, RedisInit, RoutesSetup,
        GoListenAndServe '':8081'', SignalNotify [SIGINT, SIGTERM],
        Receive SIGINT, ZapInfo ''Shutdown Server ...'', WithTimeout 5000000000,
        Shutdown 5000000000 (Some DeadlineExceeded),
        ZapFatal ''Server Shutdown'' DeadlineExceeded, OsExit 1]"
    unfolding t(2) by (simp add: sample_startup_calls Second_5)
  have "filter teardown (trace (snd (main ?w))) = []"
    unfolding tr by simp
  with t(1,3) tr show ?thesis by simp
qed

section \<open>Package logger: GinRecovery\<close>

lemma sample_broken_pipe: "brokenPipe ascii_ToLower sample_EPIPE = Inr True"
  by (simp add: sample_EPIPE_def brokenPipe_def SyscallError_Error_def Contains_def
      ascii_ToLower_def sublist_Cons_right prefix_Cons)

text \<open>
  Claim C9, at a panic whose value is a nil \<open>*net.OpError\<close>. The value is no broken-pipe
  error, and the claim has the middleware log it and abort the request with status 500.
  The deferred function, after \<open>recover()\<close>, reads \<open>ne.Err\<close> through the nil pointer and
  panics itself: whatever \<open>stack\<close>, the request and \<open>strings.ToLower\<close> are, it makes no
  call to the logger, writes no status, and that panic leaves the middleware. The same
  holds for an \<open>OpError\<close> whose \<open>Err\<close> is a nil \<open>*os.SyscallError\<close>. For comparison, on the
  sample request a panic with a value that is no error is logged and answered with 500,
  and the panic of a write on a closed connection is logged, recorded and aborted
  without a status.
\<close>

theorem GinRecovery_nil_OpError_panics:
  "GinRecovery stack ToLower c (Panics (OfOpError None)) = ([c_Next], Some NilPointerDereference)
   \<and> GinRecovery stack ToLower c (Panics (OfOpError (Some (OpError (Err_SyscallError None)))))
       = ([c_Next], Some NilPointerDereference)
   \<and> GinRecovery True ascii_ToLower sample_Context (Panics (OfValue ''boom'')) =
       ([c_Next,
         zap_Error ''[Recovery from panic]''
           [zap_Any ''error'' (OfValue ''boom''), zap_String ''request'' ''GET /ping HTTP/1.1'',
            zap_String ''stack'' ''goroutine 1 [running]''],
         c_AbortWithStatus 500], None)
   \<and> GinRecovery True ascii_ToLower sample_Context (Panics sample_EPIPE) =
       ([c_Next,
         zap_Error ''/ping''
           [zap_Any ''error'' sample_EPIPE, zap_String ''request'' ''GET /ping HTTP/1.1''],
         c_Error sample_EPIPE, c_Abort], None)"
proof -
  have nil_OpError: "GinRecovery stack ToLower c (Panics (OfOpError None))
      = ([c_Next], Some NilPointerDereference)"
    by (simp add: GinRecovery_def brokenPipe_def)
  have nil_SyscallError:
    "GinRecovery stack ToLower c (Panics (OfOpError (Some (OpError (Err_SyscallError None)))))
      = ([c_Next], Some NilPointerDereference)"
    by (simp add: GinRecovery_def brokenPipe_def SyscallError_Error_def)
  have boom: "GinRecovery True ascii_ToLower sample_Context (Panics (OfValue ''boom'')) =
       ([c_Next,
         zap_Error ''[Recovery from panic]''
           [zap_Any ''error'' (OfValue ''boom''), zap_String ''request'' ''GET /ping HTTP/1.1'',
            zap_String ''stack'' ''goroutine 1 [running]''],
         c_AbortWithStatus 500], None)"
    by (simp add: GinRecovery_def brokenPipe_def sample_Context_def
        StatusInternalServerError_def)
  have epipe: "GinRecovery True ascii_ToLower sample_Context (Panics sample_EPIPE) =
       ([c_Next,
         zap_Error ''/ping''
           [zap_Any ''error'' sample_EPIPE, zap_String ''request'' ''GET /ping HTTP/1.1''],
         c_Error sample_EPIPE, c_Abort], None)"
    by (simp add: GinRecovery_def sample_broken_pipe sample_Context_def)
  from nil_OpError nil_SyscallError boom epipe show ?thesis by blast
qed

end
